theory Spec2Isabelle
  imports Complex_Main "HOL-Library.AList"
begin

section \<open>Data model: the tables of the initial schema migration\<close>

text \<open>
  The program is a React client (\<^verbatim>\<open>UserDashboard.tsx\<close>, \<^verbatim>\<open>AdminDashboard\<close>) that talks to a
  PostgreSQL database through PostgREST. The decision logic lives in the SQL schema: table
  constraints, the generated column \<^verbatim>\<open>duration_minutes\<close> and the row-level-security (RLS)
  policies. The model below is a database state (one list of rows per table, in storage
  order), the policies as predicates on (state, caller, row), and each client function as
  one statement executed against the state on behalf of the caller \<^verbatim>\<open>auth.uid()\<close>.

  A UUID is a natural number. A \<^verbatim>\<open>TIMESTAMP WITH TIME ZONE\<close> is an integer count of
  microseconds (the resolution of the column type). The columns \<^verbatim>\<open>created_at\<close> and
  \<^verbatim>\<open>updated_at\<close>, and the surrogate keys of \<^verbatim>\<open>profiles\<close> and \<^verbatim>\<open>user_roles\<close>, are left out:
  no statement of the two dashboards filters or decides on them.
\<close>

type_synonym uuid = nat
type_synonym timestamptz = int

datatype app_role = Admin | User

record profile =
  pf_user_id :: uuid
  pf_email :: string
  pf_first_name :: "string option"
  pf_last_name :: "string option"

record project =
  pr_id :: uuid
  pr_name :: string
  pr_description :: "string option"
  pr_created_by :: uuid
  pr_is_active :: bool

record project_assignment =
  pa_id :: uuid
  pa_project_id :: uuid
  pa_user_id :: uuid
  pa_assigned_by :: uuid

record time_entry =
  te_id :: uuid
  te_user_id :: uuid
  te_project_id :: uuid
  te_description :: "string option"
  te_start_time :: timestamptz
  te_end_time :: "timestamptz option"
  te_duration_minutes :: "int option"
  te_is_running :: bool

record db =
  auth_users :: "uuid list"
  user_roles :: "(uuid \<times> app_role) list"
  profiles :: "profile list"
  projects :: "project list"
  project_assignments :: "project_assignment list"
  time_entries :: "time_entry list"

text \<open>The errors PostgreSQL can answer a statement of the client with (SQLSTATE in brackets).\<close>

datatype pg_error =
  InvalidTextRepresentation   \<comment> \<open>22P02 / 22007: a string that is no uuid or timestamp literal\<close>
  | NumericValueOutOfRange    \<comment> \<open>22003: the generated value does not fit \<^verbatim>\<open>INTEGER\<close>\<close>
  | RlsViolation              \<comment> \<open>42501: new row violates row-level security policy\<close>
  | UniqueViolation           \<comment> \<open>23505\<close>
  | ForeignKeyViolation       \<comment> \<open>23503\<close>

section \<open>The generated column \<^verbatim>\<open>duration_minutes\<close>\<close>

text \<open>
  \<^verbatim>\<open>
  duration_minutes INTEGER GENERATED ALWAYS AS (
    CASE WHEN end_time IS NOT NULL THEN
        EXTRACT(EPOCH FROM (end_time - start_time)) / 60
      ELSE NULL END ) STORED
  \<close>
  \<^verbatim>\<open>EXTRACT(EPOCH ...)\<close> is the interval in seconds as a \<^verbatim>\<open>numeric\<close> with six decimals; the
  quotient by 60 is assigned to an \<^verbatim>\<open>INTEGER\<close> column, which rounds a \<^verbatim>\<open>numeric\<close> to the
  nearest integer, ties away from zero, and raises 22003 outside the 32-bit range.
  \<open>round_div a b\<close> is that rounding of the exact quotient \<open>a / b\<close> for \<open>b > 0\<close>.
\<close>

definition round_div :: "int \<Rightarrow> int \<Rightarrow> int" where
  "round_div a b = (if 0 \<le> a then (2 * a + b) div (2 * b) else - ((2 * (- a) + b) div (2 * b)))"

definition usec_per_minute :: int where
  "usec_per_minute = 60000000"

definition gen_duration_minutes :: "timestamptz \<Rightarrow> timestamptz option \<Rightarrow> int option" where
  "gen_duration_minutes start_time end_time =
     (case end_time of
        None \<Rightarrow> None
      | Some t \<Rightarrow> Some (round_div (t - start_time) usec_per_minute))"

definition int4_ok :: "int \<Rightarrow> bool" where
  "int4_ok d \<longleftrightarrow> - 2147483648 \<le> d \<and> d \<le> 2147483647"

text \<open>Storing a row computes the generated column from the row's own times; a client
  value for it is never read (the write payloads below have no such field).\<close>

definition compute_generated :: "time_entry \<Rightarrow> pg_error + time_entry" where
  "compute_generated e =
     (case gen_duration_minutes (te_start_time e) (te_end_time e) of
        None \<Rightarrow> Inr (e\<lparr>te_duration_minutes := None\<rparr>)
      | Some d \<Rightarrow>
          if int4_ok d then Inr (e\<lparr>te_duration_minutes := Some d\<rparr>)
          else Inl NumericValueOutOfRange)"

section \<open>Row-level security\<close>

text \<open>\<^verbatim>\<open>has_role(_user_id, _role)\<close>: \<^verbatim>\<open>SECURITY DEFINER\<close>, so it reads \<^verbatim>\<open>user_roles\<close>
  unfiltered.\<close>

definition has_role :: "db \<Rightarrow> uuid \<Rightarrow> app_role \<Rightarrow> bool" where
  "has_role d uid r \<longleftrightarrow> (uid, r) \<in> set (user_roles d)"

text \<open>
  The permissive policies of one table and one command are combined with OR; a
  \<^verbatim>\<open>FOR ALL\<close> policy counts for every command, and its \<^verbatim>\<open>USING\<close> expression is also the
  \<^verbatim>\<open>WITH CHECK\<close> of an insert when none is written.

  \<^verbatim>\<open>time_entries\<close>: "Users can view their own time entries" and "Admins can view all time
  entries" for SELECT; INSERT, UPDATE and DELETE have the owner policy only.
\<close>

definition te_select_policy :: "db \<Rightarrow> uuid \<Rightarrow> time_entry \<Rightarrow> bool" where
  "te_select_policy d uid e \<longleftrightarrow> uid = te_user_id e \<or> has_role d uid Admin"

definition te_insert_check :: "db \<Rightarrow> uuid \<Rightarrow> time_entry \<Rightarrow> bool" where
  "te_insert_check d uid e \<longleftrightarrow> uid = te_user_id e"

definition te_update_using :: "db \<Rightarrow> uuid \<Rightarrow> time_entry \<Rightarrow> bool" where
  "te_update_using d uid e \<longleftrightarrow> uid = te_user_id e"

text \<open>\<^verbatim>\<open>project_assignments\<close>: "Users can view their assignments" (SELECT) and "Admins can
  manage assignments" (ALL).\<close>

definition pa_select_policy :: "db \<Rightarrow> uuid \<Rightarrow> project_assignment \<Rightarrow> bool" where
  "pa_select_policy d uid a \<longleftrightarrow>
     (uid = pa_user_id a \<or> has_role d uid Admin) \<or> has_role d uid Admin"

definition pa_insert_check :: "db \<Rightarrow> uuid \<Rightarrow> project_assignment \<Rightarrow> bool" where
  "pa_insert_check d uid a \<longleftrightarrow> has_role d uid Admin"

definition select_project_assignments :: "db \<Rightarrow> uuid \<Rightarrow> project_assignment list" where
  "select_project_assignments d uid = filter (pa_select_policy d uid) (project_assignments d)"

text \<open>
  \<^verbatim>\<open>projects\<close>: "Users can view assigned projects" as the later migration re-creates it
  (\<^verbatim>\<open>project_assignments.project_id = projects.id AND project_assignments.user_id =
  auth.uid()\<close>), and "Admins can manage projects" (ALL). The sub-select runs as the caller, so
  it ranges over the assignments the caller may see.
\<close>

definition pr_select_policy :: "db \<Rightarrow> uuid \<Rightarrow> project \<Rightarrow> bool" where
  "pr_select_policy d uid p \<longleftrightarrow>
     (list_ex (\<lambda>a. pa_project_id a = pr_id p \<and> pa_user_id a = uid)
        (select_project_assignments d uid)
      \<or> has_role d uid Admin)
     \<or> has_role d uid Admin"

definition pr_update_using :: "db \<Rightarrow> uuid \<Rightarrow> project \<Rightarrow> bool" where
  "pr_update_using d uid p \<longleftrightarrow> has_role d uid Admin"

text \<open>\<^verbatim>\<open>profiles\<close>: "Users can view their own profile" is the only SELECT policy.\<close>

definition pf_select_policy :: "db \<Rightarrow> uuid \<Rightarrow> profile \<Rightarrow> bool" where
  "pf_select_policy d uid p \<longleftrightarrow> uid = pf_user_id p"

definition select_time_entries :: "db \<Rightarrow> uuid \<Rightarrow> time_entry list" where
  "select_time_entries d uid = filter (te_select_policy d uid) (time_entries d)"

definition select_projects :: "db \<Rightarrow> uuid \<Rightarrow> project list" where
  "select_projects d uid = filter (pr_select_policy d uid) (projects d)"

definition select_profiles :: "db \<Rightarrow> uuid \<Rightarrow> profile list" where
  "select_profiles d uid = filter (pf_select_policy d uid) (profiles d)"

section \<open>Writing \<^verbatim>\<open>time_entries\<close>\<close>

text \<open>
  The columns an insert of the client supplies. \<open>new_id\<close> is the value
  \<^verbatim>\<open>gen_random_uuid()\<close> draws for the primary key. PostgreSQL processes a new row in this
  order: stored generated columns, the RLS \<^verbatim>\<open>WITH CHECK\<close>, the unique indexes, and the
  foreign keys at the end of the statement (these bypass RLS).
\<close>

record time_entry_insert =
  ti_user_id :: uuid
  ti_project_id :: uuid
  ti_description :: "string option"
  ti_start_time :: timestamptz
  ti_end_time :: "timestamptz option"
  ti_is_running :: bool

definition insert_time_entry :: "db \<Rightarrow> uuid \<Rightarrow> uuid \<Rightarrow> time_entry_insert \<Rightarrow> pg_error + db" where
  "insert_time_entry d uid new_id v =
     (case compute_generated
             \<lparr>te_id = new_id, te_user_id = ti_user_id v, te_project_id = ti_project_id v,
              te_description = ti_description v, te_start_time = ti_start_time v,
              te_end_time = ti_end_time v, te_duration_minutes = None,
              te_is_running = ti_is_running v\<rparr> of
        Inl err \<Rightarrow> Inl err
      | Inr row \<Rightarrow>
          if \<not> te_insert_check d uid row then Inl RlsViolation
          else if new_id \<in> set (map te_id (time_entries d)) then Inl UniqueViolation
          else if ti_user_id v \<notin> set (auth_users d)
                  \<or> ti_project_id v \<notin> set (map pr_id (projects d))
               then Inl ForeignKeyViolation
          else Inr (d\<lparr>time_entries := time_entries d @ [row]\<rparr>))"

text \<open>
  \<^verbatim>\<open>UPDATE time_entries SET ... WHERE qual\<close>: the rows the caller may select and update
  and that satisfy the filter get the new values and a recomputed generated column; every
  other row is skipped without an error; an error on one row aborts the statement.
\<close>

fun update_time_entries ::
  "(time_entry \<Rightarrow> bool) \<Rightarrow> (time_entry \<Rightarrow> time_entry) \<Rightarrow> time_entry list \<Rightarrow> pg_error + time_entry list"
where
  "update_time_entries qual upd [] = Inr []"
| "update_time_entries qual upd (e # es) =
     (if qual e then
        (case compute_generated (upd e) of
           Inl err \<Rightarrow> Inl err
         | Inr e' \<Rightarrow>
             (case update_time_entries qual upd es of
                Inl err \<Rightarrow> Inl err
              | Inr es' \<Rightarrow> Inr (e' # es')))
      else
        (case update_time_entries qual upd es of
           Inl err \<Rightarrow> Inl err
         | Inr es' \<Rightarrow> Inr (e # es')))"

section \<open>UserDashboard\<close>

text \<open>
  \<^verbatim>\<open>
  const startTimer = async (projectId: string, description: string = '') => {
      const { error } = await supabase.from('time_entries').insert({
          user_id: user?.id, project_id: projectId, description,
          start_time: new Date().toISOString(), is_running: true });
      if (error) throw error;
  \<close>
  \<open>uid\<close> is the signed-in user, \<open>now\<close> the clock reading.
\<close>

definition startTimer :: "db \<Rightarrow> uuid \<Rightarrow> uuid \<Rightarrow> timestamptz \<Rightarrow> uuid \<Rightarrow> string \<Rightarrow> pg_error + db" where
  "startTimer d uid new_id now projectId description =
     insert_time_entry d uid new_id
       \<lparr>ti_user_id = uid, ti_project_id = projectId, ti_description = Some description,
        ti_start_time = now, ti_end_time = None, ti_is_running = True\<rparr>"

text \<open>
  \<^verbatim>\<open>
  const stopTimer = async (entryId: string) => {
      const { error } = await supabase.from('time_entries')
        .update({ end_time: new Date().toISOString(), is_running: false })
        .eq('id', entryId);
      if (error) throw error;
  \<close>
\<close>

definition stopTimer :: "db \<Rightarrow> uuid \<Rightarrow> timestamptz \<Rightarrow> uuid \<Rightarrow> pg_error + db" where
  "stopTimer d uid now entryId =
     (case update_time_entries
             (\<lambda>e. te_select_policy d uid e \<and> te_update_using d uid e \<and> te_id e = entryId)
             (\<lambda>e. e\<lparr>te_end_time := Some now, te_is_running := False\<rparr>)
             (time_entries d) of
        Inl err \<Rightarrow> Inl err
      | Inr es \<Rightarrow> Inr (d\<lparr>time_entries := es\<rparr>))"

text \<open>
  \<^verbatim>\<open>
  const createManualEntry = async () => {
      const { error } = await supabase.from('time_entries').insert({
          user_id: user?.id, project_id: newEntry.project_id,
          description: newEntry.description, start_time: newEntry.start_time,
          end_time: newEntry.end_time, is_running: false });
      if (error) throw error;
  \<close>
  The form state \<^verbatim>\<open>newEntry\<close> holds strings, initially all \<^verbatim>\<open>''\<close>. A field is \<open>None\<close>
  when its string is no literal of the column's type (as \<^verbatim>\<open>''\<close> is not); the statement
  then fails before any row is built.
\<close>

record new_entry =
  ne_project_id :: "uuid option"
  ne_description :: string
  ne_start_time :: "timestamptz option"
  ne_end_time :: "timestamptz option"

definition createManualEntry :: "db \<Rightarrow> uuid \<Rightarrow> uuid \<Rightarrow> new_entry \<Rightarrow> pg_error + db" where
  "createManualEntry d uid new_id newEntry =
     (case (ne_project_id newEntry, ne_start_time newEntry, ne_end_time newEntry) of
        (Some p, Some s, Some t) \<Rightarrow>
          insert_time_entry d uid new_id
            \<lparr>ti_user_id = uid, ti_project_id = p,
             ti_description = Some (ne_description newEntry),
             ti_start_time = s, ti_end_time = Some t, ti_is_running = False\<rparr>
      | _ \<Rightarrow> Inl InvalidTextRepresentation)"

text \<open>
  \<^verbatim>\<open>
  const fetchProjects = async () => {
      const { data, error } = await supabase.from('projects')
        .select('id, name, description').eq('is_active', true);
  \<close>
  The result feeds both project selectors of the page (quick timer and manual entry).
\<close>

record project_item =
  pi_id :: uuid
  pi_name :: string
  pi_description :: "string option"

definition fetchProjects :: "db \<Rightarrow> uuid \<Rightarrow> project_item list" where
  "fetchProjects d uid =
     map (\<lambda>p. \<lparr>pi_id = pr_id p, pi_name = pr_name p, pi_description = pr_description p\<rparr>)
       (filter (\<lambda>p. pr_is_active p = True) (select_projects d uid))"

text \<open>
  \<^verbatim>\<open>
  const fetchTimeEntries = async () => {
      const { data, error } = await supabase.from('time_entries')
        .select(`id, description, start_time, end_time, duration_minutes, is_running,
                 project_id, projects!inner(name)`)
        .order('start_time', { ascending: false });
  \<close>
  \<^verbatim>\<open>projects!inner(name)\<close> embeds the row of \<^verbatim>\<open>projects\<close> that \<^verbatim>\<open>project_id\<close> references,
  read as the caller (so through the SELECT policies of \<^verbatim>\<open>projects\<close>), and \<^verbatim>\<open>!inner\<close>
  drops every time entry for which no such row comes back. The sort is stable here; the
  database leaves the order of equal start times open.
\<close>

record time_entry_item =
  fe_id :: uuid
  fe_description :: "string option"
  fe_start_time :: timestamptz
  fe_end_time :: "timestamptz option"
  fe_duration_minutes :: "int option"
  fe_is_running :: bool
  fe_project_id :: uuid
  fe_projects_name :: string

definition embed_projects :: "db \<Rightarrow> uuid \<Rightarrow> time_entry \<Rightarrow> project option" where
  "embed_projects d uid e = find (\<lambda>p. pr_id p = te_project_id e) (select_projects d uid)"

definition time_entry_item_of :: "time_entry \<Rightarrow> project \<Rightarrow> time_entry_item" where
  "time_entry_item_of e p =
     \<lparr>fe_id = te_id e, fe_description = te_description e, fe_start_time = te_start_time e,
      fe_end_time = te_end_time e, fe_duration_minutes = te_duration_minutes e,
      fe_is_running = te_is_running e, fe_project_id = te_project_id e,
      fe_projects_name = pr_name p\<rparr>"

definition fetchTimeEntries :: "db \<Rightarrow> uuid \<Rightarrow> time_entry_item list" where
  "fetchTimeEntries d uid =
     sort_key (\<lambda>r. - fe_start_time r)
       (List.map_filter (\<lambda>e. map_option (time_entry_item_of e) (embed_projects d uid e))
          (select_time_entries d uid))"

section \<open>AdminDashboard\<close>

text \<open>
  \<^verbatim>\<open>
  const assignUserToProject = async () => {
      const { error } = await supabase.from('project_assignments').insert({
          project_id: selectedProject, user_id: selectedUser,
          assigned_by: (await supabase.auth.getUser()).data.user?.id });
      if (error) throw error;
  \<close>
  against \<^verbatim>\<open>UNIQUE(project_id, user_id)\<close>, the primary key and the three foreign keys of
  \<^verbatim>\<open>project_assignments\<close>. \<^verbatim>\<open>selectedProject\<close> and \<^verbatim>\<open>selectedUser\<close> are strings, initially
  \<^verbatim>\<open>''\<close>: \<open>None\<close> stands for a string that is no uuid.
\<close>

definition insert_project_assignment :: "db \<Rightarrow> uuid \<Rightarrow> project_assignment \<Rightarrow> pg_error + db" where
  "insert_project_assignment d uid row =
     (if \<not> pa_insert_check d uid row then Inl RlsViolation
      else if pa_id row \<in> set (map pa_id (project_assignments d))
              \<or> (pa_project_id row, pa_user_id row)
                   \<in> set (map (\<lambda>a. (pa_project_id a, pa_user_id a)) (project_assignments d))
           then Inl UniqueViolation
      else if pa_project_id row \<notin> set (map pr_id (projects d))
              \<or> pa_user_id row \<notin> set (auth_users d)
              \<or> pa_assigned_by row \<notin> set (auth_users d)
           then Inl ForeignKeyViolation
      else Inr (d\<lparr>project_assignments := project_assignments d @ [row]\<rparr>))"

definition assignUserToProject ::
  "db \<Rightarrow> uuid \<Rightarrow> uuid \<Rightarrow> uuid option \<Rightarrow> uuid option \<Rightarrow> pg_error + db"
where
  "assignUserToProject d uid new_id selectedProject selectedUser =
     (case (selectedProject, selectedUser) of
        (Some p, Some u) \<Rightarrow>
          insert_project_assignment d uid
            \<lparr>pa_id = new_id, pa_project_id = p, pa_user_id = u, pa_assigned_by = uid\<rparr>
      | _ \<Rightarrow> Inl InvalidTextRepresentation)"

text \<open>
  \<^verbatim>\<open>
  const toggleProjectStatus = async (projectId: string, currentStatus: boolean) => {
      const { error } = await supabase.from('projects')
        .update({ is_active: !currentStatus }).eq('id', projectId);
  \<close>
  An update of a row the caller may not update changes nothing and reports no error.
\<close>

definition toggleProjectStatus :: "db \<Rightarrow> uuid \<Rightarrow> uuid \<Rightarrow> bool \<Rightarrow> pg_error + db" where
  "toggleProjectStatus d uid projectId currentStatus =
     Inr (d\<lparr>projects :=
            map (\<lambda>p. if pr_select_policy d uid p \<and> pr_update_using d uid p \<and> pr_id p = projectId
                     then p\<lparr>pr_is_active := \<not> currentStatus\<rparr> else p)
              (projects d)\<rparr>)"

subsection \<open>The summary of hours per user and project\<close>















section \<open>Sequences of calls\<close>

text \<open>The calls of the two dashboards that write, each with its caller and the values
  drawn at run time. A call that fails leaves the database as it was.\<close>

datatype call =
  StartTimer uuid uuid timestamptz uuid string
  | StopTimer uuid timestamptz uuid
  | CreateManualEntry uuid uuid new_entry
  | AssignUserToProject uuid uuid "uuid option" "uuid option"
  | ToggleProjectStatus uuid uuid bool

fun exec :: "db \<Rightarrow> call \<Rightarrow> pg_error + db" where
  "exec d (StartTimer uid new_id now projectId description) =
     startTimer d uid new_id now projectId description"
| "exec d (StopTimer uid now entryId) = stopTimer d uid now entryId"
| "exec d (CreateManualEntry uid new_id newEntry) = createManualEntry d uid new_id newEntry"
| "exec d (AssignUserToProject uid new_id selectedProject selectedUser) =
     assignUserToProject d uid new_id selectedProject selectedUser"
| "exec d (ToggleProjectStatus uid projectId currentStatus) =
     toggleProjectStatus d uid projectId currentStatus"

fun run :: "db \<Rightarrow> call list \<Rightarrow> db" where
  "run d [] = d"
| "run d (c # cs) = (case exec d c of Inl err \<Rightarrow> run d cs | Inr d' \<Rightarrow> run d' cs)"

definition running_entries :: "db \<Rightarrow> uuid \<Rightarrow> time_entry list" where
  "running_entries d u = filter (\<lambda>e. te_user_id e = u \<and> te_is_running e) (time_entries d)"

text \<open>The stored state of one entry as the calls above leave it: the duration is the value
  the generated column computes from the two times of the row, and a running entry has no
  end time.\<close>

definition derived_ok :: "time_entry \<Rightarrow> bool" where
  "derived_ok e \<longleftrightarrow>
     te_duration_minutes e = gen_duration_minutes (te_start_time e) (te_end_time e)
     \<and> (te_is_running e \<longrightarrow> te_end_time e = None)"

text \<open>The row \<open>stopTimer\<close> leaves where it applies.\<close>

definition stopped_at :: "timestamptz \<Rightarrow> time_entry \<Rightarrow> time_entry" where
  "stopped_at now e =
     e\<lparr>te_end_time := Some now, te_is_running := False,
       te_duration_minutes := Some (round_div (now - te_start_time e) usec_per_minute)\<rparr>"

section \<open>Example states\<close>

text \<open>User 1 is an administrator; users 2 and 3 are members; user 2 is assigned to both
  projects, user 3 to none; project 11 is deactivated.\<close>

definition example_db :: db where
  "example_db =
     \<lparr>auth_users = [1, 2, 3],
      user_roles = [(1, User), (1, Admin), (2, User), (3, User)],
      profiles =
        [\<lparr>pf_user_id = 1, pf_email = ''ada@example.org'', pf_first_name = Some ''Ada'',
          pf_last_name = None\<rparr>,
         \<lparr>pf_user_id = 2, pf_email = ''bob@example.org'', pf_first_name = None,
          pf_last_name = None\<rparr>,
         \<lparr>pf_user_id = 3, pf_email = ''cy@example.org'', pf_first_name = Some ''Cy'',
          pf_last_name = Some ''Young''\<rparr>],
      projects =
        [\<lparr>pr_id = 10, pr_name = ''Alpha'', pr_description = None, pr_created_by = 1,
          pr_is_active = True\<rparr>,
         \<lparr>pr_id = 11, pr_name = ''Beta'', pr_description = None, pr_created_by = 1,
          pr_is_active = False\<rparr>],
      project_assignments =
        [\<lparr>pa_id = 20, pa_project_id = 10, pa_user_id = 2, pa_assigned_by = 1\<rparr>,
         \<lparr>pa_id = 21, pa_project_id = 11, pa_user_id = 2, pa_assigned_by = 1\<rparr>],
      time_entries = []\<rparr>"

text \<open>The same state with four time entries: 90 minutes of user 2 on project 10, a running
  timer of user 2, 30 minutes of user 3 on project 10, 45 minutes of user 1 on project 11.\<close>

definition logged_db :: db where
  "logged_db =
     example_db\<lparr>time_entries :=
       [\<lparr>te_id = 100, te_user_id = 2, te_project_id = 10, te_description = Some ''design'',
         te_start_time = 0, te_end_time = Some 5400000000, te_duration_minutes = Some 90,
         te_is_running = False\<rparr>,
        \<lparr>te_id = 101, te_user_id = 2, te_project_id = 10, te_description = Some [],
         te_start_time = 6000000000, te_end_time = None, te_duration_minutes = None,
         te_is_running = True\<rparr>,
        \<lparr>te_id = 102, te_user_id = 3, te_project_id = 10, te_description = Some ''review'',
         te_start_time = 1000000, te_end_time = Some 1801000000, te_duration_minutes = Some 30,
         te_is_running = False\<rparr>,
        \<lparr>te_id = 103, te_user_id = 1, te_project_id = 11, te_description = None,
         te_start_time = 2000000, te_end_time = Some 2702000000, te_duration_minutes = Some 45,
         te_is_running = False\<rparr>]\<rparr>"

text \<open>And with two more finished entries of user 2: 20 minutes on project 11 and 30
  minutes on project 10.\<close>

definition summary_db :: db where
  "summary_db =
     logged_db\<lparr>time_entries := time_entries logged_db @
       [\<lparr>te_id = 104, te_user_id = 2, te_project_id = 11, te_description = None,
         te_start_time = 7000000000, te_end_time = Some 8200000000,
         te_duration_minutes = Some 20, te_is_running = False\<rparr>,
        \<lparr>te_id = 105, te_user_id = 2, te_project_id = 10, te_description = None,
         te_start_time = 9000000000, te_end_time = Some 10800000000,
         te_duration_minutes = Some 30, te_is_running = False\<rparr>]\<rparr>"

section \<open>Properties\<close>

subsection \<open>Policies\<close>

lemma pr_select_policy_iff:
  "pr_select_policy d uid p \<longleftrightarrow>
     (\<exists>a \<in> set (project_assignments d). pa_project_id a = pr_id p \<and> pa_user_id a = uid)
     \<or> has_role d uid Admin"
  by (auto simp: pr_select_policy_def select_project_assignments_def pa_select_policy_def
      list_ex_iff)

lemmas example_simps =
  example_db_def logged_db_def summary_db_def has_role_def select_projects_def select_time_entries_def
  select_project_assignments_def select_profiles_def pr_select_policy_def pa_select_policy_def
  te_select_policy_def pf_select_policy_def

subsection \<open>The project selection of a member\<close>

text \<open>
  C10. Every project in the list \<open>fetchProjects\<close> returns (the list both selectors of the
  user dashboard offer) is a stored project with \<open>is_active = true\<close>; with the primary key
  of \<open>projects\<close> in force, a deactivated project is in no caller's list, whether or not
  the caller is assigned to it.
\<close>

theorem fetchProjects_only_active:
  "(\<forall>item \<in> set (fetchProjects d uid).
      \<exists>p \<in> set (projects d). pr_id p = pi_id item \<and> pr_name p = pi_name item \<and> pr_is_active p)
   \<and> (\<forall>p \<in> set (projects d).
        distinct (map pr_id (projects d)) \<longrightarrow> \<not> pr_is_active p \<longrightarrow>
        pr_id p \<notin> set (map pi_id (fetchProjects d uid)))"
proof (intro conjI ballI impI)
  fix item assume "item \<in> set (fetchProjects d uid)"
  then show "\<exists>p \<in> set (projects d).
      pr_id p = pi_id item \<and> pr_name p = pi_name item \<and> pr_is_active p"
    by (auto simp: fetchProjects_def select_projects_def)
next
  fix p assume p: "p \<in> set (projects d)" and dist: "distinct (map pr_id (projects d))"
    and inactive: "\<not> pr_is_active p"
  show "pr_id p \<notin> set (map pi_id (fetchProjects d uid))"
  proof
    assume "pr_id p \<in> set (map pi_id (fetchProjects d uid))"
    then obtain q where q: "q \<in> set (projects d)" "pr_is_active q" "pr_id q = pr_id p"
      by (auto simp: fetchProjects_def select_projects_def)
    from dist p q(1) q(3) have "q = p"
      by (meson distinct_map inj_on_def)
    with q(2) inactive show False by simp
  qed
qed

text \<open>User 2 is assigned to the active project 10 and to the deactivated project 11, and is
  offered project 10 only.\<close>

theorem fetchProjects_only_active_witness:
  "fetchProjects example_db 2 = [\<lparr>pi_id = 10, pi_name = ''Alpha'', pi_description = None\<rparr>]
   \<and> list_ex (\<lambda>a. pa_project_id a = 11 \<and> pa_user_id a = 2) (project_assignments example_db)
   \<and> list_ex (\<lambda>p. pr_id p = 11 \<and> \<not> pr_is_active p) (projects example_db)
   \<and> distinct (map pr_id (projects example_db))
   \<and> 11 \<notin> set (map pi_id (fetchProjects example_db 2))"
  using fetchProjects_only_active [of example_db 2]
  by (simp add: fetchProjects_def example_simps)

subsection \<open>What an administrator may read and create\<close>

text \<open>
  C7. For a caller with the admin role the SELECT policies of \<open>projects\<close>,
  \<open>project_assignments\<close> and \<open>time_entries\<close> pass every row, with no look at the
  assignments; an insert into \<open>time_entries\<close> of a row whose \<open>user_id\<close> is not the
  caller is refused (by the policy, unless the generated column already failed), for an
  admin as for anyone else.
\<close>

theorem admin_reads_all_creates_only_own:
  assumes "has_role d a Admin"
  shows "select_projects d a = projects d
         \<and> select_project_assignments d a = project_assignments d
         \<and> select_time_entries d a = time_entries d
         \<and> (ti_user_id v \<noteq> a \<longrightarrow>
              insert_time_entry d a new_id v = Inl RlsViolation
              \<or> insert_time_entry d a new_id v = Inl NumericValueOutOfRange)"
  using assms
  by (auto simp: select_projects_def select_project_assignments_def select_time_entries_def
      pr_select_policy_def pa_select_policy_def te_select_policy_def insert_time_entry_def
      compute_generated_def te_insert_check_def split: option.splits)

theorem admin_reads_all_creates_only_own_witness:
  "has_role logged_db 1 Admin
   \<and> select_projects logged_db 1 = projects logged_db
   \<and> select_project_assignments logged_db 1 = project_assignments logged_db
   \<and> select_time_entries logged_db 1 = time_entries logged_db
   \<and> insert_time_entry logged_db 1 104
        \<lparr>ti_user_id = 2, ti_project_id = 10, ti_description = None, ti_start_time = 0,
         ti_end_time = Some 60000000, ti_is_running = False\<rparr> = Inl RlsViolation"
proof -
  have h: "has_role logged_db 1 Admin"
    by (simp add: example_simps)
  have e: "insert_time_entry logged_db 1 104
        \<lparr>ti_user_id = 2, ti_project_id = 10, ti_description = None, ti_start_time = 0,
         ti_end_time = Some 60000000, ti_is_running = False\<rparr> \<noteq> Inl NumericValueOutOfRange"
    by (simp add: insert_time_entry_def compute_generated_def gen_duration_minutes_def
        round_div_def usec_per_minute_def int4_ok_def te_insert_check_def)
  show ?thesis
    using h e admin_reads_all_creates_only_own [OF h,
        of "\<lparr>ti_user_id = 2, ti_project_id = 10, ti_description = None, ti_start_time = 0,
            ti_end_time = Some 60000000, ti_is_running = False\<rparr>" 104]
    by simp
qed

subsection \<open>Assigning a user to a project\<close>

text \<open>
  C8. If an assignment for the pair (project, user) is stored, \<open>assignUserToProject\<close> for
  that pair fails for every caller, and for an administrator it fails with the unique
  violation of \<^verbatim>\<open>UNIQUE(project_id, user_id)\<close>; nothing is stored. If no assignment for the
  pair is stored, the call of an administrator with a fresh key and existing project and
  users appends the row, and the pair then occurs exactly once.
\<close>

theorem assignUserToProject_duplicate_rejected:
  "((p, u) \<in> set (map (\<lambda>x. (pa_project_id x, pa_user_id x)) (project_assignments d)) \<longrightarrow>
      (\<exists>err. assignUserToProject d a new_id (Some p) (Some u) = Inl err)
      \<and> (has_role d a Admin \<longrightarrow>
           assignUserToProject d a new_id (Some p) (Some u) = Inl UniqueViolation))
   \<and> ((p, u) \<notin> set (map (\<lambda>x. (pa_project_id x, pa_user_id x)) (project_assignments d))
        \<and> has_role d a Admin \<and> new_id \<notin> set (map pa_id (project_assignments d))
        \<and> p \<in> set (map pr_id (projects d)) \<and> u \<in> set (auth_users d) \<and> a \<in> set (auth_users d) \<longrightarrow>
      (\<exists>d'. assignUserToProject d a new_id (Some p) (Some u) = Inr d'
         \<and> project_assignments d' =
             project_assignments d
             @ [\<lparr>pa_id = new_id, pa_project_id = p, pa_user_id = u, pa_assigned_by = a\<rparr>]
         \<and> length (filter (\<lambda>x. pa_project_id x = p \<and> pa_user_id x = u)
                     (project_assignments d')) = 1))"
proof (intro conjI impI)
  assume dup: "(p, u) \<in> set (map (\<lambda>x. (pa_project_id x, pa_user_id x)) (project_assignments d))"
  then show "\<exists>err. assignUserToProject d a new_id (Some p) (Some u) = Inl err"
    by (simp add: assignUserToProject_def insert_project_assignment_def)
  assume "has_role d a Admin"
  with dup show "assignUserToProject d a new_id (Some p) (Some u) = Inl UniqueViolation"
    by (simp add: assignUserToProject_def insert_project_assignment_def pa_insert_check_def)
next
  assume h: "(p, u) \<notin> set (map (\<lambda>x. (pa_project_id x, pa_user_id x)) (project_assignments d))
        \<and> has_role d a Admin \<and> new_id \<notin> set (map pa_id (project_assignments d))
        \<and> p \<in> set (map pr_id (projects d)) \<and> u \<in> set (auth_users d) \<and> a \<in> set (auth_users d)"
  then have none: "filter (\<lambda>x. pa_project_id x = p \<and> pa_user_id x = u) (project_assignments d) = []"
    by (force simp: filter_empty_conv)
  from h have "assignUserToProject d a new_id (Some p) (Some u) =
      Inr (d\<lparr>project_assignments := project_assignments d
             @ [\<lparr>pa_id = new_id, pa_project_id = p, pa_user_id = u, pa_assigned_by = a\<rparr>]\<rparr>)"
    by (simp add: assignUserToProject_def insert_project_assignment_def pa_insert_check_def)
  with none show "\<exists>d'. assignUserToProject d a new_id (Some p) (Some u) = Inr d'
         \<and> project_assignments d' =
             project_assignments d
             @ [\<lparr>pa_id = new_id, pa_project_id = p, pa_user_id = u, pa_assigned_by = a\<rparr>]
         \<and> length (filter (\<lambda>x. pa_project_id x = p \<and> pa_user_id x = u)
                     (project_assignments d')) = 1"
    by simp
qed

text \<open>In the example user 2 is assigned to project 10 and user 3 is not.\<close>

theorem assignUserToProject_duplicate_rejected_witness:
  "(10, 2) \<in> set (map (\<lambda>x. (pa_project_id x, pa_user_id x)) (project_assignments example_db))
   \<and> has_role example_db 1 Admin
   \<and> assignUserToProject example_db 1 22 (Some 10) (Some 2) = Inl UniqueViolation
   \<and> (10, 3) \<notin> set (map (\<lambda>x. (pa_project_id x, pa_user_id x)) (project_assignments example_db))
   \<and> assignUserToProject example_db 1 22 (Some 10) (Some 3) =
       Inr (example_db\<lparr>project_assignments := project_assignments example_db
             @ [\<lparr>pa_id = 22, pa_project_id = 10, pa_user_id = 3, pa_assigned_by = 1\<rparr>]\<rparr>)"
  using assignUserToProject_duplicate_rejected [of 10 2 example_db 1 22]
    assignUserToProject_duplicate_rejected [of 10 3 example_db 1 22]
  by (simp add: example_simps assignUserToProject_def insert_project_assignment_def
      pa_insert_check_def)

subsection \<open>Who sees which time entries\<close>

lemma find_SomeD: "find P xs = Some x \<Longrightarrow> x \<in> set xs \<and> P x"
  by (induction xs) (auto split: if_splits)

lemma set_map_filter_Some: "set (List.map_filter f xs) = {y. \<exists>x \<in> set xs. f x = Some y}"
  by (induction xs) (auto split: option.splits)

lemma set_fetchTimeEntries:
  "set (fetchTimeEntries d uid) =
     {time_entry_item_of e p | e p.
        e \<in> set (time_entries d) \<and> te_select_policy d uid e \<and> embed_projects d uid e = Some p}"
  by (auto simp: fetchTimeEntries_def set_map_filter_Some select_time_entries_def)

lemma embed_projects_Some:
  "embed_projects d uid e = Some p \<Longrightarrow>
     p \<in> set (projects d) \<and> pr_select_policy d uid p \<and> pr_id p = te_project_id e"
  by (auto simp: embed_projects_def select_projects_def dest: find_SomeD)

lemma embed_projects_visible:
  assumes "p \<in> set (projects d)" "pr_id p = te_project_id e" "pr_select_policy d uid p"
  shows "\<exists>q. embed_projects d uid e = Some q"
proof -
  have "p \<in> set (select_projects d uid)" using assms by (simp add: select_projects_def)
  with assms(2) have "find (\<lambda>p. pr_id p = te_project_id e) (select_projects d uid) \<noteq> None"
    by (auto simp: find_None_iff)
  then show ?thesis by (auto simp: embed_projects_def)
qed

text \<open>
  C4. For a caller without the admin role, every row of \<open>fetchTimeEntries\<close>, and so every
  row that any further filter \<open>flt\<close> of the page keeps, is the projection of a stored
  entry whose \<open>user_id\<close> is the caller. For an administrator, when every entry references
  a stored project (the foreign key), the unfiltered result has a row for every stored
  entry, whoever owns it.
\<close>

theorem fetchTimeEntries_authorization:
  "(\<not> has_role d b Admin \<longrightarrow>
      (\<forall>r \<in> set (filter flt (fetchTimeEntries d b)).
         \<exists>e \<in> set (time_entries d). \<exists>p \<in> set (projects d).
            r = time_entry_item_of e p \<and> te_user_id e = b))
   \<and> (has_role d a Admin
        \<and> (\<forall>e \<in> set (time_entries d). te_project_id e \<in> set (map pr_id (projects d))) \<longrightarrow>
      (\<forall>e \<in> set (time_entries d). \<exists>r \<in> set (fetchTimeEntries d a). fe_id r = te_id e))"
proof (intro conjI impI ballI)
  fix r assume na: "\<not> has_role d b Admin" and "r \<in> set (filter flt (fetchTimeEntries d b))"
  then obtain e p where "r = time_entry_item_of e p" "e \<in> set (time_entries d)"
      "te_select_policy d b e" "embed_projects d b e = Some p"
    by (auto simp: set_fetchTimeEntries)
  with na show "\<exists>e \<in> set (time_entries d). \<exists>p \<in> set (projects d).
            r = time_entry_item_of e p \<and> te_user_id e = b"
    by (auto simp: te_select_policy_def dest: embed_projects_Some)
next
  fix e assume h: "has_role d a Admin
        \<and> (\<forall>e \<in> set (time_entries d). te_project_id e \<in> set (map pr_id (projects d)))"
    and e: "e \<in> set (time_entries d)"
  then obtain p where p: "p \<in> set (projects d)" "pr_id p = te_project_id e" by auto
  from h have "pr_select_policy d a p" by (simp add: pr_select_policy_def)
  with p obtain q where "embed_projects d a e = Some q"
    using embed_projects_visible by blast
  moreover from h have "te_select_policy d a e" by (simp add: te_select_policy_def)
  ultimately have "time_entry_item_of e q \<in> set (fetchTimeEntries d a)"
    using e by (auto simp: set_fetchTimeEntries)
  then show "\<exists>r \<in> set (fetchTimeEntries d a). fe_id r = te_id e"
    by (force simp: time_entry_item_of_def)
qed


text \<open>User 2 gets the two entries of user 2; the administrator gets the entries of all
  three users.\<close>

theorem fetchTimeEntries_authorization_witness:
  "\<not> has_role logged_db 2 Admin
   \<and> map fe_id (filter (\<lambda>r. fe_project_id r = 10) (fetchTimeEntries logged_db 2)) = [101, 100]
   \<and> list_all
        (\<lambda>r. list_ex (\<lambda>e. te_id e = fe_id r \<and> te_user_id e = 2) (time_entries logged_db))
        (filter (\<lambda>r. fe_project_id r = 10) (fetchTimeEntries logged_db 2))
   \<and> has_role logged_db 1 Admin
   \<and> list_all (\<lambda>e. te_project_id e \<in> set (map pr_id (projects logged_db))) (time_entries logged_db)
   \<and> map te_user_id (time_entries logged_db) = [2, 2, 3, 1]
   \<and> list_all (\<lambda>e. list_ex (\<lambda>r. fe_id r = te_id e) (fetchTimeEntries logged_db 1))
        (time_entries logged_db)"
proof -
  note inst = fetchTimeEntries_authorization [of logged_db 2 "\<lambda>r. fe_project_id r = 10" 1]
  have na: "\<not> has_role logged_db 2 Admin" by (simp add: example_simps)
  have l2: "map fe_id (filter (\<lambda>r. fe_project_id r = 10) (fetchTimeEntries logged_db 2)) = [101, 100]"
    by (simp add: fetchTimeEntries_def embed_projects_def time_entry_item_of_def example_simps)
  have ad: "has_role logged_db 1 Admin" by (simp add: example_simps)
  have fk: "\<forall>e \<in> set (time_entries logged_db). te_project_id e \<in> set (map pr_id (projects logged_db))"
    by (simp add: example_simps)
  have us: "map te_user_id (time_entries logged_db) = [2, 2, 3, 1]"
    by (simp add: example_simps)
  from inst na
  have "\<forall>r \<in> set (filter (\<lambda>r. fe_project_id r = 10) (fetchTimeEntries logged_db 2)).
         \<exists>e \<in> set (time_entries logged_db). \<exists>p \<in> set (projects logged_db).
            r = time_entry_item_of e p \<and> te_user_id e = 2"
    by blast
  then have own: "list_all
        (\<lambda>r. list_ex (\<lambda>e. te_id e = fe_id r \<and> te_user_id e = 2) (time_entries logged_db))
        (filter (\<lambda>r. fe_project_id r = 10) (fetchTimeEntries logged_db 2))"
    unfolding list_all_iff list_ex_iff by (fastforce simp: time_entry_item_of_def)
  from inst ad fk
  have "\<forall>e \<in> set (time_entries logged_db). \<exists>r \<in> set (fetchTimeEntries logged_db 1). fe_id r = te_id e"
    by blast
  then have every: "list_all (\<lambda>e. list_ex (\<lambda>r. fe_id r = te_id e) (fetchTimeEntries logged_db 1))
        (time_entries logged_db)"
    unfolding list_all_iff list_ex_iff .
  from fk have fk': "list_all (\<lambda>e. te_project_id e \<in> set (map pr_id (projects logged_db)))
      (time_entries logged_db)"
    unfolding list_all_iff .
  from na l2 own ad fk' us every show ?thesis by blast
qed

lemma toggle_projects:
  assumes "toggleProjectStatus d a pid cs = Inr d'"
  shows "\<exists>f. projects d' = map f (projects d) \<and> (\<forall>p. pr_id (f p) = pr_id p \<and> pr_name (f p) = pr_name p)
           \<and> time_entries d' = time_entries d \<and> project_assignments d' = project_assignments d
           \<and> user_roles d' = user_roles d"
  using assms unfolding toggleProjectStatus_def
  by (intro exI [of _ "\<lambda>p. if pr_select_policy d a p \<and> pr_update_using d a p \<and> pr_id p = pid
                     then p\<lparr>pr_is_active := \<not> cs\<rparr> else p"]) auto

lemma find_map_comp: "find P (map f xs) = map_option f (find (P \<circ> f) xs)"
  by (induction xs) auto

lemma toggle_fetchTimeEntries:
  assumes "toggleProjectStatus d a pid cs = Inr d'"
  shows "fetchTimeEntries d' u = fetchTimeEntries d u"
proof -
  from toggle_projects [OF assms] obtain f where f: "projects d' = map f (projects d)"
    "\<And>p. pr_id (f p) = pr_id p" "\<And>p. pr_name (f p) = pr_name p"
    "time_entries d' = time_entries d" "project_assignments d' = project_assignments d"
    "user_roles d' = user_roles d"
    by blast
  have role: "has_role d' u Admin = has_role d u Admin"
    by (simp add: has_role_def f)
  have pol: "pr_select_policy d' u (f p) = pr_select_policy d u p" for p
    by (simp add: pr_select_policy_iff f role)
  have sel: "select_projects d' u = map f (select_projects d u)"
    by (simp add: select_projects_def f filter_map comp_def pol)
  have emb: "embed_projects d' u e = map_option f (embed_projects d u e)" for e
    by (simp add: embed_projects_def sel find_map_comp comp_def f)
  have tei: "time_entry_item_of e (f p) = time_entry_item_of e p" for e p
    by (simp add: time_entry_item_of_def f)
  have item: "map_option (time_entry_item_of e) (embed_projects d' u e)
                = map_option (time_entry_item_of e) (embed_projects d u e)" for e
    by (simp add: emb option.map_comp comp_def tei)
  have "te_select_policy d' u = te_select_policy d u"
    by (rule ext) (simp add: te_select_policy_def role)
  then have "select_time_entries d' u = select_time_entries d u"
    by (simp add: select_time_entries_def f)
  then show ?thesis
    by (simp add: fetchTimeEntries_def item)
qed

text \<open>
  C5, as amended. An entry is always readable by its owner under the SELECT policy of
  \<open>time_entries\<close>, whatever the assignments and whatever \<open>is_active\<close>. It is in the owner's
  \<open>fetchTimeEntries\<close> list when its project is stored and the owner may see that project
  (an assignment for the owner exists, or the owner is an administrator); \<open>is_active\<close>
  plays no part. \<open>toggleProjectStatus\<close> changes no caller's list, and afterwards every
  administrator still reads the entry.
\<close>

theorem own_entries_listed_while_project_visible:
  assumes "e \<in> set (time_entries d)" and "te_user_id e = u"
  shows "te_select_policy d u e
     \<and> ((\<exists>p \<in> set (projects d). pr_id p = te_project_id e)
          \<and> ((\<exists>a \<in> set (project_assignments d).
                 pa_project_id a = te_project_id e \<and> pa_user_id a = u)
              \<or> has_role d u Admin) \<longrightarrow>
        (\<exists>p. time_entry_item_of e p \<in> set (fetchTimeEntries d u)))
     \<and> (\<forall>a pid cs d'. toggleProjectStatus d a pid cs = Inr d' \<longrightarrow>
          fetchTimeEntries d' u = fetchTimeEntries d u
          \<and> (\<forall>adm. has_role d' adm Admin \<longrightarrow> e \<in> set (select_time_entries d' adm)))"
proof (intro conjI impI allI)
  show own: "te_select_policy d u e"
    using assms by (simp add: te_select_policy_def)
  {
    assume v: "(\<exists>p \<in> set (projects d). pr_id p = te_project_id e)
          \<and> ((\<exists>a \<in> set (project_assignments d).
                 pa_project_id a = te_project_id e \<and> pa_user_id a = u)
              \<or> has_role d u Admin)"
    then obtain p where p: "p \<in> set (projects d)" "pr_id p = te_project_id e" by blast
    with v have "pr_select_policy d u p" by (simp add: pr_select_policy_iff)
    with p obtain q where "embed_projects d u e = Some q"
      using embed_projects_visible by blast
    with own assms(1) show "\<exists>p. time_entry_item_of e p \<in> set (fetchTimeEntries d u)"
      by (auto simp: set_fetchTimeEntries)
  }
  fix a pid cs d'
  assume t: "toggleProjectStatus d a pid cs = Inr d'"
  then show "fetchTimeEntries d' u = fetchTimeEntries d u"
    by (rule toggle_fetchTimeEntries)
  fix adm assume "has_role d' adm Admin"
  moreover from t have "time_entries d' = time_entries d"
    by (auto simp: toggleProjectStatus_def)
  ultimately show "e \<in> set (select_time_entries d' adm)"
    using assms(1) by (simp add: select_time_entries_def te_select_policy_def)
qed

text \<open>Entry 100 of user 2 on project 10, before and after the administrator deactivates
  project 10.\<close>

theorem own_entries_listed_while_project_visible_witness:
  "time_entries logged_db ! 0 \<in> set (time_entries logged_db)
   \<and> te_user_id (time_entries logged_db ! 0) = 2
   \<and> te_select_policy logged_db 2 (time_entries logged_db ! 0)
   \<and> list_ex (\<lambda>p. pr_id p = te_project_id (time_entries logged_db ! 0)) (projects logged_db)
   \<and> list_ex (\<lambda>a. pa_project_id a = te_project_id (time_entries logged_db ! 0) \<and> pa_user_id a = 2)
        (project_assignments logged_db)
   \<and> (\<exists>p. time_entry_item_of (time_entries logged_db ! 0) p \<in> set (fetchTimeEntries logged_db 2))
   \<and> toggleProjectStatus logged_db 1 10 True =
        Inr (logged_db\<lparr>projects :=
               [\<lparr>pr_id = 10, pr_name = ''Alpha'', pr_description = None, pr_created_by = 1,
                 pr_is_active = False\<rparr>,
                \<lparr>pr_id = 11, pr_name = ''Beta'', pr_description = None, pr_created_by = 1,
                 pr_is_active = False\<rparr>]\<rparr>)
   \<and> fetchTimeEntries
         (logged_db\<lparr>projects :=
               [\<lparr>pr_id = 10, pr_name = ''Alpha'', pr_description = None, pr_created_by = 1,
                 pr_is_active = False\<rparr>,
                \<lparr>pr_id = 11, pr_name = ''Beta'', pr_description = None, pr_created_by = 1,
                 pr_is_active = False\<rparr>]\<rparr>) 2
       = fetchTimeEntries logged_db 2
   \<and> map fe_id (fetchTimeEntries logged_db 2) = [101, 100]"
proof -
  have m: "time_entries logged_db ! 0 \<in> set (time_entries logged_db)"
    and o: "te_user_id (time_entries logged_db ! 0) = 2"
    by (simp_all add: example_simps)
  have v: "(\<exists>p \<in> set (projects logged_db). pr_id p = te_project_id (time_entries logged_db ! 0))
      \<and> ((\<exists>a \<in> set (project_assignments logged_db).
             pa_project_id a = te_project_id (time_entries logged_db ! 0) \<and> pa_user_id a = 2)
          \<or> has_role logged_db 2 Admin)"
    by (simp add: example_simps)
  have l: "list_ex (\<lambda>p. pr_id p = te_project_id (time_entries logged_db ! 0)) (projects logged_db)
    \<and> list_ex (\<lambda>a. pa_project_id a = te_project_id (time_entries logged_db ! 0) \<and> pa_user_id a = 2)
        (project_assignments logged_db)"
    by (simp add: example_simps)
  have t: "toggleProjectStatus logged_db 1 10 True =
        Inr (logged_db\<lparr>projects :=
               [\<lparr>pr_id = 10, pr_name = ''Alpha'', pr_description = None, pr_created_by = 1,
                 pr_is_active = False\<rparr>,
                \<lparr>pr_id = 11, pr_name = ''Beta'', pr_description = None, pr_created_by = 1,
                 pr_is_active = False\<rparr>]\<rparr>)"
    by (simp add: toggleProjectStatus_def pr_update_using_def example_simps)
  have f: "map fe_id (fetchTimeEntries logged_db 2) = [101, 100]"
    by (simp add: fetchTimeEntries_def embed_projects_def time_entry_item_of_def example_simps)
  note inst = own_entries_listed_while_project_visible [OF m o]
  from inst have c1: "te_select_policy logged_db 2 (time_entries logged_db ! 0)" by blast
  from inst v have c2: "\<exists>p. time_entry_item_of (time_entries logged_db ! 0) p
      \<in> set (fetchTimeEntries logged_db 2)" by blast
  from inst t have c3: "fetchTimeEntries
         (logged_db\<lparr>projects :=
               [\<lparr>pr_id = 10, pr_name = ''Alpha'', pr_description = None, pr_created_by = 1,
                 pr_is_active = False\<rparr>,
                \<lparr>pr_id = 11, pr_name = ''Beta'', pr_description = None, pr_created_by = 1,
                 pr_is_active = False\<rparr>]\<rparr>) 2
       = fetchTimeEntries logged_db 2" by blast
  from m o l t f c1 c2 c3 show ?thesis by blast
qed

text \<open>
  C5 as stated fails where no assignment exists: entry 102 is owned by user 3, who is no
  administrator and has no assignment for project 10. The inner join with \<open>projects\<close>
  finds no project row that user 3 may read, and the list of user 3 is empty.
\<close>

theorem own_entry_not_listed_without_assignment:
  "te_id (time_entries logged_db ! 2) = 102
   \<and> te_user_id (time_entries logged_db ! 2) = 3
   \<and> time_entries logged_db ! 2 \<in> set (time_entries logged_db)
   \<and> \<not> has_role logged_db 3 Admin
   \<and> fetchTimeEntries logged_db 3 = []"
  by (simp add: fetchTimeEntries_def embed_projects_def example_simps)

subsection \<open>Rounding to minutes, inserts and updates\<close>

lemma round_div_nonneg_bound:
  fixes a b :: int
  assumes "0 < b" and "0 \<le> a"
  shows "\<bar>2 * (((2 * a + b) div (2 * b)) * b - a)\<bar> \<le> b"
proof -
  define q where "q = (2 * a + b) div (2 * b)"
  define r where "r = (2 * a + b) mod (2 * b)"
  have eq: "q * (2 * b) + r = 2 * a + b"
    unfolding q_def r_def by (rule div_mult_mod_eq)
  have r: "0 \<le> r" "r < 2 * b"
    using assms(1) by (simp_all add: r_def)
  from eq have "2 * (q * b - a) = b - r"
    by (simp add: algebra_simps)
  with r show ?thesis
    unfolding q_def [symmetric] by linarith
qed

lemma round_div_bound:
  assumes "0 < b"
  shows "\<bar>2 * (round_div a b * b - a)\<bar> \<le> b"
proof (cases "0 \<le> a")
  case True
  then have "round_div a b = (2 * a + b) div (2 * b)"
    by (simp only: round_div_def if_True)
  with round_div_nonneg_bound [OF assms True] show ?thesis
    by (simp only:)
next
  case False
  then have rd: "round_div a b = - ((2 * (- a) + b) div (2 * b))"
    by (simp only: round_div_def if_False)
  define q where "q = (2 * (- a) + b) div (2 * b)"
  from False have "0 \<le> - a" by simp
  from round_div_nonneg_bound [OF assms this]
  have "\<bar>2 * (q * b - (- a))\<bar> \<le> b"
    unfolding q_def .
  moreover have "2 * (- q * b - a) = - (2 * (q * b - (- a)))"
    by (simp add: algebra_simps)
  ultimately have "\<bar>2 * (- q * b - a)\<bar> \<le> b"
    by (simp only: abs_minus_cancel)
  then show ?thesis
    unfolding rd q_def .
qed

lemma round_div_minute_bound:
  "\<bar>round_div a usec_per_minute * usec_per_minute - a\<bar> \<le> 30000000"
proof -
  define x where "x = round_div a usec_per_minute * usec_per_minute - a"
  have "\<bar>2 * x\<bar> \<le> usec_per_minute"
    unfolding x_def by (rule round_div_bound) (simp add: usec_per_minute_def)
  then have "2 * \<bar>x\<bar> \<le> 60000000"
    by (simp add: abs_mult usec_per_minute_def)
  then have "\<bar>x\<bar> \<le> 30000000"
    by simp
  then show ?thesis
    unfolding x_def .
qed

lemma round_div_whole_minutes:
  assumes "a = k * usec_per_minute"
  shows "round_div a usec_per_minute = k"
proof -
  define m where "m = round_div a usec_per_minute"
  have "\<bar>m * 60000000 - k * 60000000\<bar> \<le> 30000000"
    using round_div_minute_bound [of a] assms
    by (simp only: m_def usec_per_minute_def)
  then have "m = k" by linarith
  then show ?thesis by (simp only: m_def)
qed

lemma compute_generated_Inr:
  "compute_generated e = Inr e' \<Longrightarrow>
     e' = e\<lparr>te_duration_minutes := gen_duration_minutes (te_start_time e) (te_end_time e)\<rparr>"
  by (auto simp: compute_generated_def split: option.splits if_splits)

lemma update_time_entries_Inr:
  "update_time_entries q u es = Inr es' \<Longrightarrow>
     es' = map (\<lambda>e. if q e
                    then (u e)\<lparr>te_duration_minutes :=
                             gen_duration_minutes (te_start_time (u e)) (te_end_time (u e))\<rparr>
                    else e) es"
proof (induction es arbitrary: es')
  case Nil
  then show ?case by simp
next
  case (Cons e es)
  then show ?case
    by (auto split: if_splits sum.splits dest: compute_generated_Inr)
qed

lemma update_time_entries_total:
  "(\<forall>e \<in> set es. q e \<longrightarrow> (\<exists>e'. compute_generated (u e) = Inr e')) \<Longrightarrow>
     \<exists>es'. update_time_entries q u es = Inr es'"
  by (induction es) (auto split: sum.splits)

lemma update_time_entries_Inl:
  "update_time_entries q u es = Inl err \<Longrightarrow> err = NumericValueOutOfRange"
  by (induction es) (auto simp: compute_generated_def split: sum.splits if_splits option.splits)

lemma stopTimer_Inr:
  assumes "stopTimer d uid now entryId = Inr d'"
  shows "d' = d\<lparr>time_entries :=
                 map (\<lambda>e. if te_user_id e = uid \<and> te_id e = entryId then stopped_at now e else e)
                   (time_entries d)\<rparr>"
proof -
  from assms obtain es where es: "update_time_entries
             (\<lambda>e. te_select_policy d uid e \<and> te_update_using d uid e \<and> te_id e = entryId)
             (\<lambda>e. e\<lparr>te_end_time := Some now, te_is_running := False\<rparr>)
             (time_entries d) = Inr es" and d': "d' = d\<lparr>time_entries := es\<rparr>"
    by (auto simp: stopTimer_def split: sum.splits)
  have "es = map (\<lambda>e. if te_user_id e = uid \<and> te_id e = entryId then stopped_at now e else e)
                   (time_entries d)"
    unfolding update_time_entries_Inr [OF es]
    by (rule map_cong)
      (auto simp: te_select_policy_def te_update_using_def stopped_at_def gen_duration_minutes_def)
  with d' show ?thesis by simp
qed


lemma length_filter_map_le:
  "(\<And>x. P (g x) \<Longrightarrow> P x) \<Longrightarrow> length (filter P (map g xs)) \<le> length (filter P xs)"
  by (induction xs) auto

lemma insert_time_entry_Inr:
  assumes "insert_time_entry d uid new_id v = Inr d'"
  shows "d' = d\<lparr>time_entries := time_entries d @
            [\<lparr>te_id = new_id, te_user_id = ti_user_id v, te_project_id = ti_project_id v,
              te_description = ti_description v, te_start_time = ti_start_time v,
              te_end_time = ti_end_time v,
              te_duration_minutes = gen_duration_minutes (ti_start_time v) (ti_end_time v),
              te_is_running = ti_is_running v\<rparr>]\<rparr>"
  using assms
  by (auto simp: insert_time_entry_def split: sum.splits if_splits dest!: compute_generated_Inr)

lemmas write_simps =
  startTimer_def stopTimer_def createManualEntry_def insert_time_entry_def
  compute_generated_def gen_duration_minutes_def round_div_def usec_per_minute_def int4_ok_def
  te_insert_check_def te_update_using_def stopped_at_def running_entries_def

subsection \<open>Stopping a timer\<close>

text \<open>
  C3, as amended. \<open>stopTimer\<close> sets \<open>end_time\<close> to the clock reading and \<open>is_running\<close> to
  false, and recomputes \<open>duration_minutes\<close>, on every entry that has the given id and belongs
  to the caller, whether or not that entry was running; every other entry is left as it is.
  If no entry has the id and belongs to the caller, the call succeeds and the state is
  unchanged. The call succeeds whenever the new durations fit \<^verbatim>\<open>INTEGER\<close>; that overflow is
  its only error, and an error stores nothing.
\<close>

theorem stopTimer_overwrites_or_skips:
  "(\<forall>d'. stopTimer d uid now entryId = Inr d' \<longrightarrow>
      d' = d\<lparr>time_entries :=
                map (\<lambda>e. if te_user_id e = uid \<and> te_id e = entryId then stopped_at now e else e)
                  (time_entries d)\<rparr>)
   \<and> ((\<forall>e \<in> set (time_entries d). te_user_id e = uid \<and> te_id e = entryId \<longrightarrow>
          int4_ok (round_div (now - te_start_time e) usec_per_minute)) \<longrightarrow>
       (\<exists>d'. stopTimer d uid now entryId = Inr d'))
   \<and> ((\<forall>e \<in> set (time_entries d). \<not> (te_user_id e = uid \<and> te_id e = entryId)) \<longrightarrow>
       stopTimer d uid now entryId = Inr d)
   \<and> (\<forall>err. stopTimer d uid now entryId = Inl err \<longrightarrow> err = NumericValueOutOfRange)"
proof -
  have total: "\<exists>d'. stopTimer d uid now entryId = Inr d'"
    if ok: "\<forall>e \<in> set (time_entries d). te_user_id e = uid \<and> te_id e = entryId \<longrightarrow>
          int4_ok (round_div (now - te_start_time e) usec_per_minute)"
  proof -
    have "\<exists>es'. update_time_entries
             (\<lambda>e. te_select_policy d uid e \<and> te_update_using d uid e \<and> te_id e = entryId)
             (\<lambda>e. e\<lparr>te_end_time := Some now, te_is_running := False\<rparr>)
             (time_entries d) = Inr es'"
      by (rule update_time_entries_total)
        (use ok in \<open>auto simp: compute_generated_def gen_duration_minutes_def te_update_using_def\<close>)
    then obtain es' where "update_time_entries
             (\<lambda>e. te_select_policy d uid e \<and> te_update_using d uid e \<and> te_id e = entryId)
             (\<lambda>e. e\<lparr>te_end_time := Some now, te_is_running := False\<rparr>)
             (time_entries d) = Inr es'" by blast
    then have "stopTimer d uid now entryId = Inr (d\<lparr>time_entries := es'\<rparr>)"
      by (simp add: stopTimer_def)
    then show ?thesis by blast
  qed
  have skip: "stopTimer d uid now entryId = Inr d"
    if none: "\<forall>e \<in> set (time_entries d). \<not> (te_user_id e = uid \<and> te_id e = entryId)"
  proof -
    from none have "\<exists>d'. stopTimer d uid now entryId = Inr d'"
      by (intro total) blast
    then obtain d' where d': "stopTimer d uid now entryId = Inr d'" by blast
    have "map (\<lambda>e. if te_user_id e = uid \<and> te_id e = entryId then stopped_at now e else e)
            (time_entries d) = time_entries d"
      by (rule map_idI) (use none in auto)
    with stopTimer_Inr [OF d'] have "d' = d" by simp
    with d' show ?thesis by simp
  qed
  have err: "err = NumericValueOutOfRange" if "stopTimer d uid now entryId = Inl err" for err
    using that by (auto simp: stopTimer_def split: sum.splits dest: update_time_entries_Inl)
  from stopTimer_Inr total skip err show ?thesis by blast
qed

text \<open>User 2 stops the running entry 101 after 90 seconds (2 minutes, rounded), and
  stops an entry 999 that does not exist.\<close>

theorem stopTimer_overwrites_or_skips_witness:
  "list_all (\<lambda>e. te_user_id e = 2 \<and> te_id e = 101 \<longrightarrow>
       int4_ok (round_div (6090000000 - te_start_time e) usec_per_minute)) (time_entries logged_db)
   \<and> list_ex (\<lambda>e. te_user_id e = 2 \<and> te_id e = 101 \<and> te_is_running e) (time_entries logged_db)
   \<and> stopTimer logged_db 2 6090000000 101 =
       Inr (logged_db\<lparr>time_entries :=
               map (\<lambda>e. if te_user_id e = 2 \<and> te_id e = 101 then stopped_at 6090000000 e else e)
                 (time_entries logged_db)\<rparr>)
   \<and> map te_duration_minutes
        (map (\<lambda>e. if te_user_id e = 2 \<and> te_id e = 101 then stopped_at 6090000000 e else e)
           (time_entries logged_db)) = [Some 90, Some 2, Some 30, Some 45]
   \<and> list_all (\<lambda>e. \<not> (te_user_id e = 2 \<and> te_id e = 999)) (time_entries logged_db)
   \<and> stopTimer logged_db 2 6090000000 999 = Inr logged_db"
proof -
  have ok: "\<forall>e \<in> set (time_entries logged_db). te_user_id e = 2 \<and> te_id e = 101 \<longrightarrow>
       int4_ok (round_div (6090000000 - te_start_time e) usec_per_minute)"
    by (simp add: example_simps round_div_def usec_per_minute_def int4_ok_def)
  have none: "\<forall>e \<in> set (time_entries logged_db). \<not> (te_user_id e = 2 \<and> te_id e = 999)"
    by (simp add: example_simps)
  have ex: "list_ex (\<lambda>e. te_user_id e = 2 \<and> te_id e = 101 \<and> te_is_running e) (time_entries logged_db)"
    by (simp add: example_simps)
  have v: "map te_duration_minutes
        (map (\<lambda>e. if te_user_id e = 2 \<and> te_id e = 101 then stopped_at 6090000000 e else e)
           (time_entries logged_db)) = [Some 90, Some 2, Some 30, Some 45]"
    by (simp add: example_simps stopped_at_def round_div_def usec_per_minute_def)
  from stopTimer_overwrites_or_skips [of logged_db 2 6090000000 101] ok
  have a: "stopTimer logged_db 2 6090000000 101 =
       Inr (logged_db\<lparr>time_entries :=
               map (\<lambda>e. if te_user_id e = 2 \<and> te_id e = 101 then stopped_at 6090000000 e else e)
                 (time_entries logged_db)\<rparr>)"
    by blast
  from stopTimer_overwrites_or_skips [of logged_db 2 6090000000 999] none
  have b: "stopTimer logged_db 2 6090000000 999 = Inr logged_db"
    by blast
  from ok none ex v a b show ?thesis
    by (simp only: list_all_iff)
qed

text \<open>
  C3 as stated fails: entry 100 of user 2 is already stopped (end time 5400000000), yet
  \<open>stopTimer\<close> succeeds on it and overwrites its end time and duration; for an id that is
  not stored, and for an entry of another user, it succeeds too and reports no error.
\<close>

theorem stopTimer_no_NotRunning_no_NotFound:
  "\<not> te_is_running (time_entries logged_db ! 0)
   \<and> te_id (time_entries logged_db ! 0) = 100 \<and> te_user_id (time_entries logged_db ! 0) = 2
   \<and> te_end_time (time_entries logged_db ! 0) = Some 5400000000
   \<and> stopTimer logged_db 2 7200000000 100 =
       Inr (logged_db\<lparr>time_entries :=
              (time_entries logged_db)
                [0 := \<lparr>te_id = 100, te_user_id = 2, te_project_id = 10,
                       te_description = Some ''design'', te_start_time = 0,
                       te_end_time = Some 7200000000, te_duration_minutes = Some 120,
                       te_is_running = False\<rparr>]\<rparr>)
   \<and> stopTimer logged_db 2 7200000000 999 = Inr logged_db
   \<and> stopTimer logged_db 3 7200000000 100 = Inr logged_db"
  by (simp add: write_simps example_simps)

subsection \<open>Starting a timer\<close>

text \<open>
  C1, as amended. \<open>startTimer\<close> looks at no existing entry and the table has no constraint
  on running entries: for a registered caller, a stored project and a fresh key the call
  succeeds and the caller has one running entry more than before. \<open>stopTimer\<close> never
  raises the number of running entries of any user.
\<close>

theorem startTimer_adds_running_entry:
  "(uid \<in> set (auth_users d) \<and> projectId \<in> set (map pr_id (projects d))
      \<and> new_id \<notin> set (map te_id (time_entries d)) \<longrightarrow>
    (\<exists>d'. startTimer d uid new_id now projectId description = Inr d'
        \<and> length (running_entries d' uid) = Suc (length (running_entries d uid))))
   \<and> (\<forall>d' u. stopTimer d uid stop_time entryId = Inr d' \<longrightarrow>
         length (running_entries d' u) \<le> length (running_entries d u))"
proof (intro conjI allI impI)
  assume "uid \<in> set (auth_users d) \<and> projectId \<in> set (map pr_id (projects d))
      \<and> new_id \<notin> set (map te_id (time_entries d))"
  then have "startTimer d uid new_id now projectId description =
      Inr (d\<lparr>time_entries := time_entries d @
            [\<lparr>te_id = new_id, te_user_id = uid, te_project_id = projectId,
              te_description = Some description, te_start_time = now, te_end_time = None,
              te_duration_minutes = None, te_is_running = True\<rparr>]\<rparr>)"
    by (simp add: startTimer_def insert_time_entry_def compute_generated_def
        gen_duration_minutes_def te_insert_check_def)
  then show "\<exists>d'. startTimer d uid new_id now projectId description = Inr d'
        \<and> length (running_entries d' uid) = Suc (length (running_entries d uid))"
    by (simp add: running_entries_def)
next
  fix d' u assume "stopTimer d uid stop_time entryId = Inr d'"
  from stopTimer_Inr [OF this]
  have "running_entries d' u =
      filter (\<lambda>e. te_user_id e = u \<and> te_is_running e)
        (map (\<lambda>e. if te_user_id e = uid \<and> te_id e = entryId then stopped_at stop_time e else e)
           (time_entries d))"
    by (simp add: running_entries_def)
  also have "length \<dots> \<le> length (filter (\<lambda>e. te_user_id e = u \<and> te_is_running e) (time_entries d))"
    by (rule length_filter_map_le) (auto simp: stopped_at_def split: if_splits)
  finally show "length (running_entries d' u) \<le> length (running_entries d u)"
    by (simp add: running_entries_def)
qed

text \<open>User 2 already has the running entry 101, starts another timer, and stops entry
  101.\<close>

theorem startTimer_adds_running_entry_witness:
  "2 \<in> set (auth_users logged_db) \<and> 10 \<in> set (map pr_id (projects logged_db))
   \<and> 104 \<notin> set (map te_id (time_entries logged_db))
   \<and> length (running_entries logged_db 2) = 1
   \<and> (\<exists>d'. startTimer logged_db 2 104 7000000000 10 [] = Inr d'
         \<and> length (running_entries d' 2) = 2)
   \<and> (\<exists>d'. stopTimer logged_db 2 7200000000 101 = Inr d'
         \<and> length (running_entries d' 2) \<le> 1)"
proof -
  have h: "2 \<in> set (auth_users logged_db) \<and> 10 \<in> set (map pr_id (projects logged_db))
      \<and> 104 \<notin> set (map te_id (time_entries logged_db))"
    by (simp add: example_simps)
  have l: "length (running_entries logged_db 2) = 1"
    by (simp add: running_entries_def example_simps)
  have s: "\<exists>d'. stopTimer logged_db 2 7200000000 101 = Inr d'"
    by (simp add: write_simps example_simps)
  note inst = startTimer_adds_running_entry
    [of 2 logged_db 10 104 7000000000 "[]" 7200000000 101]
  from inst h obtain d' where "startTimer logged_db 2 104 7000000000 10 [] = Inr d'"
      "length (running_entries d' 2) = Suc (length (running_entries logged_db 2))"
    by blast
  with l have a: "\<exists>d'. startTimer logged_db 2 104 7000000000 10 [] = Inr d'
         \<and> length (running_entries d' 2) = 2"
    by auto
  from inst s l have b: "\<exists>d'. stopTimer logged_db 2 7200000000 101 = Inr d'
         \<and> length (running_entries d' 2) \<le> 1"
    by metis
  from h l a b show ?thesis by blast
qed

text \<open>
  C1 as stated fails: two \<open>startTimer\<close> calls of user 2, one after the other (either order
  of a race), both succeed, and user 2 has the two running entries 100 and 101.
\<close>

theorem two_running_timers_of_one_user:
  "startTimer example_db 2 100 1000000 10 [] =
     Inr (example_db\<lparr>time_entries :=
           [\<lparr>te_id = 100, te_user_id = 2, te_project_id = 10, te_description = Some [],
             te_start_time = 1000000, te_end_time = None, te_duration_minutes = None,
             te_is_running = True\<rparr>]\<rparr>)
   \<and> startTimer
        (example_db\<lparr>time_entries :=
           [\<lparr>te_id = 100, te_user_id = 2, te_project_id = 10, te_description = Some [],
             te_start_time = 1000000, te_end_time = None, te_duration_minutes = None,
             te_is_running = True\<rparr>]\<rparr>) 2 101 2000000 10 [] =
     Inr (example_db\<lparr>time_entries :=
           [\<lparr>te_id = 100, te_user_id = 2, te_project_id = 10, te_description = Some [],
             te_start_time = 1000000, te_end_time = None, te_duration_minutes = None,
             te_is_running = True\<rparr>,
            \<lparr>te_id = 101, te_user_id = 2, te_project_id = 10, te_description = Some [],
             te_start_time = 2000000, te_end_time = None, te_duration_minutes = None,
             te_is_running = True\<rparr>]\<rparr>)
   \<and> map te_id
        (running_entries
          (run example_db [StartTimer 2 100 1000000 10 [], StartTimer 2 101 2000000 10 []]) 2)
       = [100, 101]"
  by (simp add: write_simps example_simps)

subsection \<open>Manual entries\<close>

text \<open>
  C2, as amended. \<open>createManualEntry\<close> does not compare \<open>end_time\<close> with \<open>start_time\<close>: for
  a registered caller, a stored project, a fresh key and two times whose rounded distance
  in minutes fits \<^verbatim>\<open>INTEGER\<close>, the entry is stored with \<open>is_running = false\<close> and the
  rounded distance as \<open>duration_minutes\<close>, in whatever order the two times are. With
  \<open>end_time\<close> equal to \<open>start_time\<close>, or one second later, that duration is 0 (and fits).
\<close>

theorem createManualEntry_accepts_any_range:
  "(uid \<in> set (auth_users d) \<and> p \<in> set (map pr_id (projects d))
      \<and> new_id \<notin> set (map te_id (time_entries d))
      \<and> int4_ok (round_div (t - s) usec_per_minute) \<longrightarrow>
    createManualEntry d uid new_id
        \<lparr>ne_project_id = Some p, ne_description = descr, ne_start_time = Some s,
         ne_end_time = Some t\<rparr>
      = Inr (d\<lparr>time_entries := time_entries d @
              [\<lparr>te_id = new_id, te_user_id = uid, te_project_id = p,
                te_description = Some descr, te_start_time = s, te_end_time = Some t,
                te_duration_minutes = Some (round_div (t - s) usec_per_minute),
                te_is_running = False\<rparr>]\<rparr>))
   \<and> (t = s \<or> t = s + 1000000 \<longrightarrow>
        round_div (t - s) usec_per_minute = 0 \<and> int4_ok (round_div (t - s) usec_per_minute))"
  by (auto simp: createManualEntry_def insert_time_entry_def compute_generated_def
      gen_duration_minutes_def te_insert_check_def round_div_def usec_per_minute_def int4_ok_def)

text \<open>An entry of one second.\<close>

theorem createManualEntry_accepts_any_range_witness:
  "2 \<in> set (auth_users example_db) \<and> 10 \<in> set (map pr_id (projects example_db))
   \<and> 100 \<notin> set (map te_id (time_entries example_db))
   \<and> int4_ok (round_div (6000000 - 5000000) usec_per_minute)
   \<and> createManualEntry example_db 2 100
        \<lparr>ne_project_id = Some 10, ne_description = ''call'', ne_start_time = Some 5000000,
         ne_end_time = Some 6000000\<rparr>
      = Inr (example_db\<lparr>time_entries :=
              [\<lparr>te_id = 100, te_user_id = 2, te_project_id = 10,
                te_description = Some ''call'', te_start_time = 5000000,
                te_end_time = Some 6000000, te_duration_minutes = Some 0,
                te_is_running = False\<rparr>]\<rparr>)"
proof -
  have h: "2 \<in> set (auth_users example_db) \<and> 10 \<in> set (map pr_id (projects example_db))
      \<and> 100 \<notin> set (map te_id (time_entries example_db))
      \<and> int4_ok (round_div (6000000 - 5000000) usec_per_minute)"
    by (simp add: example_simps round_div_def usec_per_minute_def int4_ok_def)
  have e: "time_entries example_db = []"
    by (simp add: example_db_def)
  from createManualEntry_accepts_any_range [of 2 example_db 10 100 6000000 5000000 "''call''"] h
  have "createManualEntry example_db 2 100
        \<lparr>ne_project_id = Some 10, ne_description = ''call'', ne_start_time = Some 5000000,
         ne_end_time = Some 6000000\<rparr>
      = Inr (example_db\<lparr>time_entries := time_entries example_db @
              [\<lparr>te_id = 100, te_user_id = 2, te_project_id = 10,
                te_description = Some ''call'', te_start_time = 5000000,
                te_end_time = Some 6000000,
                te_duration_minutes = Some (round_div (6000000 - 5000000) usec_per_minute),
                te_is_running = False\<rparr>]\<rparr>)"
    by blast
  with h show ?thesis
    by (simp add: e round_div_def usec_per_minute_def)
qed

text \<open>
  C2 as stated fails: an entry with \<open>end_time = start_time\<close> is stored (duration 0), and so
  is one whose \<open>end_time\<close> lies ten minutes before its \<open>start_time\<close> (duration \<open>-10\<close>).
\<close>

theorem createManualEntry_end_not_after_start:
  "createManualEntry example_db 2 100
        \<lparr>ne_project_id = Some 10, ne_description = ''call'', ne_start_time = Some 5000000,
         ne_end_time = Some 5000000\<rparr>
      = Inr (example_db\<lparr>time_entries :=
              [\<lparr>te_id = 100, te_user_id = 2, te_project_id = 10,
                te_description = Some ''call'', te_start_time = 5000000,
                te_end_time = Some 5000000, te_duration_minutes = Some 0,
                te_is_running = False\<rparr>]\<rparr>)
   \<and> createManualEntry example_db 2 100
        \<lparr>ne_project_id = Some 10, ne_description = ''call'', ne_start_time = Some 600000000,
         ne_end_time = Some 0\<rparr>
      = Inr (example_db\<lparr>time_entries :=
              [\<lparr>te_id = 100, te_user_id = 2, te_project_id = 10,
                te_description = Some ''call'', te_start_time = 600000000,
                te_end_time = Some 0, te_duration_minutes = Some (- 10),
                te_is_running = False\<rparr>]\<rparr>)"
  by (simp add: write_simps example_simps)

subsection \<open>The duration is derived\<close>

lemma exec_derived_ok:
  assumes "\<forall>e \<in> set (time_entries d). derived_ok e" and "exec d c = Inr d'"
  shows "\<forall>e \<in> set (time_entries d'). derived_ok e"
proof (cases c)
  case (StartTimer uid new_id now projectId description)
  with assms(2) have "insert_time_entry d uid new_id
       \<lparr>ti_user_id = uid, ti_project_id = projectId, ti_description = Some description,
        ti_start_time = now, ti_end_time = None, ti_is_running = True\<rparr> = Inr d'"
    by (simp add: startTimer_def)
  from insert_time_entry_Inr [OF this] assms(1) show ?thesis
    by (auto simp: derived_ok_def)
next
  case (StopTimer uid now entryId)
  with assms(2) have "stopTimer d uid now entryId = Inr d'" by simp
  from stopTimer_Inr [OF this] assms(1) show ?thesis
    by (auto simp: derived_ok_def stopped_at_def gen_duration_minutes_def)
next
  case (CreateManualEntry uid new_id newEntry)
  with assms(2) obtain p s t where "insert_time_entry d uid new_id
            \<lparr>ti_user_id = uid, ti_project_id = p,
             ti_description = Some (ne_description newEntry),
             ti_start_time = s, ti_end_time = Some t, ti_is_running = False\<rparr> = Inr d'"
    by (auto simp: createManualEntry_def split: option.splits)
  from insert_time_entry_Inr [OF this] assms(1) show ?thesis
    by (auto simp: derived_ok_def)
next
  case (AssignUserToProject uid new_id selectedProject selectedUser)
  with assms(2) have "time_entries d' = time_entries d"
    by (auto simp: assignUserToProject_def insert_project_assignment_def
        split: option.splits if_splits)
  with assms(1) show ?thesis by simp
next
  case (ToggleProjectStatus uid projectId currentStatus)
  with assms(2) have "time_entries d' = time_entries d"
    by (auto simp: toggleProjectStatus_def)
  with assms(1) show ?thesis by simp
qed

lemma run_derived_ok:
  "\<forall>e \<in> set (time_entries d). derived_ok e \<Longrightarrow>
     \<forall>e \<in> set (time_entries (run d calls)). derived_ok e"
proof (induction calls arbitrary: d)
  case Nil
  then show ?case by simp
next
  case (Cons c calls)
  show ?case
  proof (cases "exec d c")
    case (Inl err)
    with Cons show ?thesis by simp
  next
    case (Inr d')
    from exec_derived_ok [OF Cons.prems Inr] have "\<forall>e \<in> set (time_entries d'). derived_ok e" .
    from Cons.IH [OF this] Inr show ?thesis by simp
  qed
qed

text \<open>
  C6. Start from a state in which every entry has the duration its two times generate and
  no running entry has an end time (the empty table, for one), and run any sequence of
  calls of the dashboards. Then in every stored entry \<open>duration_minutes\<close> is the generated
  value: it is null when \<open>end_time\<close> is null or the entry is running; when \<open>end_time\<close> is
  set it is the whole number of minutes nearest to \<open>end_time - start_time\<close> (at most half
  a minute off, and exact when the distance is a whole number of minutes). No call
  supplies the value: the write payloads have no such field.
\<close>

theorem duration_minutes_derived:
  assumes "\<forall>e \<in> set (time_entries d). derived_ok e"
  shows "\<forall>e \<in> set (time_entries (run d calls)).
           te_duration_minutes e = gen_duration_minutes (te_start_time e) (te_end_time e)
           \<and> (te_end_time e = None \<or> te_is_running e \<longrightarrow> te_duration_minutes e = None)
           \<and> (\<forall>t. te_end_time e = Some t \<longrightarrow>
                (\<exists>m. te_duration_minutes e = Some m
                   \<and> \<bar>m * usec_per_minute - (t - te_start_time e)\<bar> \<le> 30000000
                   \<and> (\<forall>k. t - te_start_time e = k * usec_per_minute \<longrightarrow> m = k)))"
proof
  fix e assume "e \<in> set (time_entries (run d calls))"
  with run_derived_ok [OF assms, of calls] have ok: "derived_ok e" by blast
  then have gen: "te_duration_minutes e = gen_duration_minutes (te_start_time e) (te_end_time e)"
    by (simp add: derived_ok_def)
  have none: "te_end_time e = None \<or> te_is_running e \<longrightarrow> te_duration_minutes e = None"
    using ok by (auto simp: derived_ok_def gen_duration_minutes_def)
  have some: "\<exists>m. te_duration_minutes e = Some m
                   \<and> \<bar>m * usec_per_minute - (t - te_start_time e)\<bar> \<le> 30000000
                   \<and> (\<forall>k. t - te_start_time e = k * usec_per_minute \<longrightarrow> m = k)"
    if "te_end_time e = Some t" for t
  proof -
    from that gen have "te_duration_minutes e = Some (round_div (t - te_start_time e) usec_per_minute)"
      by (simp add: gen_duration_minutes_def)
    then show ?thesis
      using round_div_minute_bound [of "t - te_start_time e"] round_div_whole_minutes
      by blast
  qed
  from gen none some
  show "te_duration_minutes e = gen_duration_minutes (te_start_time e) (te_end_time e)
           \<and> (te_end_time e = None \<or> te_is_running e \<longrightarrow> te_duration_minutes e = None)
           \<and> (\<forall>t. te_end_time e = Some t \<longrightarrow>
                (\<exists>m. te_duration_minutes e = Some m
                   \<and> \<bar>m * usec_per_minute - (t - te_start_time e)\<bar> \<le> 30000000
                   \<and> (\<forall>k. t - te_start_time e = k * usec_per_minute \<longrightarrow> m = k)))"
    by blast
qed

text \<open>Stopping entry 101 after 90 seconds, starting a timer and adding an hour by
  hand.\<close>

theorem duration_minutes_derived_witness:
  "list_all derived_ok (time_entries logged_db)
   \<and> map te_duration_minutes
       (time_entries
          (run logged_db
             [StopTimer 2 6090000000 101, StartTimer 3 104 7000000000 10 ''notes'',
              CreateManualEntry 3 105
                \<lparr>ne_project_id = Some 11, ne_description = [], ne_start_time = Some 0,
                 ne_end_time = Some 3600000000\<rparr>]))
     = [Some 90, Some 2, Some 30, Some 45, None, Some 60]
   \<and> list_all
       (\<lambda>e. te_duration_minutes e = gen_duration_minutes (te_start_time e) (te_end_time e))
       (time_entries
          (run logged_db
             [StopTimer 2 6090000000 101, StartTimer 3 104 7000000000 10 ''notes'',
              CreateManualEntry 3 105
                \<lparr>ne_project_id = Some 11, ne_description = [], ne_start_time = Some 0,
                 ne_end_time = Some 3600000000\<rparr>]))"
proof -
  have h: "\<forall>e \<in> set (time_entries logged_db). derived_ok e"
    by (simp add: derived_ok_def gen_duration_minutes_def round_div_def usec_per_minute_def
        example_simps)
  have v: "map te_duration_minutes
       (time_entries
          (run logged_db
             [StopTimer 2 6090000000 101, StartTimer 3 104 7000000000 10 ''notes'',
              CreateManualEntry 3 105
                \<lparr>ne_project_id = Some 11, ne_description = [], ne_start_time = Some 0,
                 ne_end_time = Some 3600000000\<rparr>]))
     = [Some 90, Some 2, Some 30, Some 45, None, Some 60]"
    by (simp add: write_simps example_simps)
  from duration_minutes_derived [OF h,
      of "[StopTimer 2 6090000000 101, StartTimer 3 104 7000000000 10 ''notes'',
              CreateManualEntry 3 105
                \<lparr>ne_project_id = Some 11, ne_description = [], ne_start_time = Some 0,
                 ne_end_time = Some 3600000000\<rparr>]"]
  have "list_all
       (\<lambda>e. te_duration_minutes e = gen_duration_minutes (te_start_time e) (te_end_time e))
       (time_entries
          (run logged_db
             [StopTimer 2 6090000000 101, StartTimer 3 104 7000000000 10 ''notes'',
              CreateManualEntry 3 105
                \<lparr>ne_project_id = Some 11, ne_description = [], ne_start_time = Some 0,
                 ne_end_time = Some 3600000000\<rparr>]))"
    unfolding list_all_iff by blast
  with h v show ?thesis
    unfolding list_all_iff by blast
qed

subsection \<open>The summary of hours\<close>














end
